theory Spec2Isabelle
  imports Complex_Main "HOL-Library.Multiset"
begin

section \<open>Numbers, the clock and the random source\<close>

text \<open>
  Prices are Python floats and SQL \<open>NUMERIC(10, 2)\<close> decimals in the source. The model
  computes with exact rationals: every arithmetic step of the source is kept, and the only
  rounding is the one the source asks for with \<open>round(x, n)\<close>. Rounding errors of binary
  floating point are outside the model.

  A timestamp is a \<open>datetime\<close>, counted in microseconds. Each operation takes the readings
  of the clock it makes as a function \<open>clk\<close> (\<open>clk k\<close> is what the \<open>k\<close>-th call of
  \<open>datetime.now()\<close> returns) and the draws of the random source as a function \<open>rnd\<close>
  (\<open>rnd i\<close> is the raw value behind the \<open>i\<close>-th call into \<open>random\<close>).
\<close>

type_synonym timestamp = int

definition timedelta_days :: "int \<Rightarrow> int" where
  "timedelta_days d = d * 86400000000"

text \<open>\<open>round(x)\<close> of Python rounds to the nearest integer, a tie to the even one.\<close>

definition round_half_even :: "rat \<Rightarrow> int" where
  "round_half_even x =
     (let f = floor x; d = x - of_int f
      in if d < 1 / 2 then f
         else if 1 / 2 < d then f + 1
         else if even f then f else f + 1)"

definition py_round :: "rat \<Rightarrow> nat \<Rightarrow> rat" where
  "py_round x n = of_int (round_half_even (x * 10 ^ n)) / 10 ^ n"


text \<open>
  \<open>random.random()\<close> returns \<open>k / 2^53\<close> for a 53-bit \<open>k\<close>; \<open>random.uniform(a, b)\<close> is
  \<open>a + (b - a) * random()\<close>; \<open>random.randint(a, b)\<close> is \<open>a + randbelow(b - a + 1)\<close>.
\<close>

definition random_unit :: "nat \<Rightarrow> rat" where
  "random_unit d = of_nat (d mod 2 ^ 53) / 2 ^ 53"

definition uniform :: "rat \<Rightarrow> rat \<Rightarrow> nat \<Rightarrow> rat" where
  "uniform a b d = a + (b - a) * random_unit d"

definition randint :: "int \<Rightarrow> int \<Rightarrow> nat \<Rightarrow> int" where
  "randint a b d = a + int (d mod nat (b - a + 1))"

section \<open>Pricing engine (services/market.py)\<close>

definition calculate_base_price :: "nat \<Rightarrow> rat" where
  "calculate_base_price d = py_round (uniform 1 6 d) 2"

definition calculate_price_change :: "rat \<Rightarrow> rat \<Rightarrow> nat \<Rightarrow> nat \<Rightarrow> rat" where
  "calculate_price_change current_price volatility d1 d2 =
     (let trend = (if 1 / 2 < random_unit d1 then 1 else - 1);
          change = (random_unit d2 - 1 / 2) * volatility + trend * (1 / 50);
          new_price = max (1 / 5) (current_price + current_price * change)
      in py_round new_price 2)"

section \<open>Tables (models/models.py)\<close>

text \<open>
  Modelled from the spec: the tables \<open>seed\<close>, \<open>seed_price\<close> and \<open>user\<close> of
  \<open>models/models.py\<close>, which is not among the sources. The fields are the ones the spec
  lists and the sources read and write; the nullable columns are the ones the sources
  treat as nullable (\<open>seed.price or ...\<close>, \<open>data.get('species')\<close>, \<open>volume INTEGER\<close>
  in \<open>create_test_price_data.py\<close>). A row that is not stored yet has no id; the table's
  sequence gives it one when it is inserted. \<open>to_dict\<close> of a row is the row.
\<close>

record Seed =
  Seed_id :: int
  Seed_name :: string
  Seed_species :: "string option"
  Seed_quantity :: "int option"
  Seed_price :: "rat option"
  Seed_description :: "string option"

record SeedPrice =
  SeedPrice_id :: "int option"
  SeedPrice_seed_id :: int
  SeedPrice_price :: rat
  SeedPrice_volume :: "int option"
  SeedPrice_recorded_at :: timestamp

record User =
  User_id :: "int option"
  User_username :: string
  User_email :: string
  User_password_hash :: string
  User_first_name :: string
  User_last_name :: string
  User_last_login :: "timestamp option"

record database =
  seeds :: "Seed list"
  seed_prices :: "SeedPrice list"
  users :: "User list"
  seed_price_seq :: int
  user_seq :: int

subsection \<open>Queries and the session\<close>

text \<open>\<open>Seed.query.get(id)\<close>: the row with this primary key, if any.\<close>

definition Seed_query_get :: "database \<Rightarrow> int \<Rightarrow> Seed option" where
  "Seed_query_get db i = find (\<lambda>s. Seed_id s = i) (seeds db)"

text \<open>\<open>SeedPrice.query.filter_by(seed_id=...)\<close>.\<close>

definition filter_by_seed_id :: "database \<Rightarrow> int \<Rightarrow> SeedPrice list" where
  "filter_by_seed_id db sid = filter (\<lambda>p. SeedPrice_seed_id p = sid) (seed_prices db)"

text \<open>
  \<open>order_by(SeedPrice.recorded_at)\<close> and \<open>order_by(SeedPrice.recorded_at.desc())\<close>. SQL
  leaves the order of rows with equal timestamps open; the model sorts stably, so that of
  two rows with one timestamp the one inserted later is the later one.
\<close>

definition order_by_recorded_at :: "SeedPrice list \<Rightarrow> SeedPrice list" where
  "order_by_recorded_at rows = sort_key SeedPrice_recorded_at rows"

definition order_by_recorded_at_desc :: "SeedPrice list \<Rightarrow> SeedPrice list" where
  "order_by_recorded_at_desc rows = rev (sort_key SeedPrice_recorded_at rows)"

text \<open>\<open>.first()\<close>: the first row of the result, or \<open>None\<close>.\<close>

definition first_row :: "'a list \<Rightarrow> 'a option" where
  "first_row rows = (case rows of [] \<Rightarrow> None | r # _ \<Rightarrow> Some r)"

definition latest_price_of :: "database \<Rightarrow> int \<Rightarrow> SeedPrice option" where
  "latest_price_of db sid = first_row (order_by_recorded_at_desc (filter_by_seed_id db sid))"

definition previous_price_of :: "database \<Rightarrow> int \<Rightarrow> SeedPrice option" where
  "previous_price_of db sid =
     first_row (drop 1 (order_by_recorded_at_desc (filter_by_seed_id db sid)))"

text \<open>\<open>db.session.add(row); db.session.commit()\<close> for a new price row.\<close>

definition session_add_price :: "database \<Rightarrow> SeedPrice \<Rightarrow> SeedPrice \<times> database" where
  "session_add_price db row =
     (let saved = row\<lparr>SeedPrice_id := Some (seed_price_seq db)\<rparr>
      in (saved, db\<lparr>seed_prices := seed_prices db @ [saved],
                      seed_price_seq := seed_price_seq db + 1\<rparr>))"

fun bulk_save_objects :: "database \<Rightarrow> SeedPrice list \<Rightarrow> database" where
  "bulk_save_objects db [] = db"
| "bulk_save_objects db (row # rows) = bulk_save_objects (snd (session_add_price db row)) rows"

section \<open>Market service (services/market.py)\<close>

datatype py_error = TypeError

record SeedSummary =
  summary_id :: int
  summary_name :: string
  summary_species :: "string option"
  currentPrice :: rat
  previousPrice :: rat
  change :: rat
  changePercent :: rat
  volume :: int
  summary_description :: "string option"

record MarketStats =
  totalVolume :: int
  marketCap :: rat
  seedCount :: nat

record MarketSummary =
  summary_seeds :: "SeedSummary list"
  marketStats :: MarketStats

text \<open>
  The body of the loop of \<open>get_market_summary\<close> for a seed with a latest observation.
  \<open>total_volume += daily_volume\<close> raises \<open>TypeError\<close> when the volume is \<open>NULL\<close>.
\<close>

definition summarize :: "Seed \<Rightarrow> SeedPrice \<Rightarrow> SeedPrice option \<Rightarrow> py_error + SeedSummary" where
  "summarize seed latest_price previous_price =
     (let current_price = SeedPrice_price latest_price;
          previous_price_value =
            (case previous_price of Some pp \<Rightarrow> SeedPrice_price pp | None \<Rightarrow> current_price);
          change = py_round (current_price - previous_price_value) 2;
          change_percent =
            (if 0 < previous_price_value then py_round (change / previous_price_value * 100) 1
             else 0)
      in case SeedPrice_volume latest_price of
           None \<Rightarrow> Inl TypeError
         | Some daily_volume \<Rightarrow>
             Inr \<lparr>summary_id = Seed_id seed, summary_name = Seed_name seed,
                  summary_species = Seed_species seed, currentPrice = current_price,
                  previousPrice = previous_price_value, change = change,
                  changePercent = change_percent, volume = daily_volume,
                  summary_description = Seed_description seed\<rparr>)"

fun market_summary_loop ::
  "database \<Rightarrow> Seed list \<Rightarrow> int \<Rightarrow> rat \<Rightarrow> SeedSummary list \<Rightarrow>
     py_error + (int \<times> rat \<times> SeedSummary list)" where
  "market_summary_loop db [] total_volume market_cap summaries =
     Inr (total_volume, market_cap, summaries)"
| "market_summary_loop db (seed # rest) total_volume market_cap summaries =
     (case latest_price_of db (Seed_id seed) of
        None \<Rightarrow> market_summary_loop db rest total_volume market_cap summaries
      | Some latest_price \<Rightarrow>
          (case summarize seed latest_price (previous_price_of db (Seed_id seed)) of
             Inl e \<Rightarrow> Inl e
           | Inr entry \<Rightarrow>
               market_summary_loop db rest (total_volume + volume entry)
                 (market_cap + currentPrice entry * 1000) (summaries @ [entry])))"

definition get_market_summary :: "database \<Rightarrow> py_error + MarketSummary" where
  "get_market_summary db =
     (case market_summary_loop db (seeds db) 0 0 [] of
        Inl e \<Rightarrow> Inl e
      | Inr (total_volume, market_cap, summaries) \<Rightarrow>
          Inr \<lparr>summary_seeds = summaries,
               marketStats = \<lparr>totalVolume = total_volume, marketCap = market_cap,
                               seedCount = length (seeds db)\<rparr>\<rparr>)"

text \<open>The table \<open>timeframe_days\<close> and \<open>dict.get(key, default)\<close>.\<close>

definition timeframe_days :: "(string \<times> int) list" where
  "timeframe_days = [(''1d'', 1), (''1w'', 7), (''1m'', 30), (''3m'', 90), (''1y'', 365)]"

definition dict_get :: "('k \<times> 'v) list \<Rightarrow> 'k \<Rightarrow> 'v \<Rightarrow> 'v" where
  "dict_get d k dflt = (case map_of d k of Some v \<Rightarrow> v | None \<Rightarrow> dflt)"

text \<open>
  \<open>seed.price or MarketService.calculate_base_price()\<close>: the stored price when it is
  truthy (neither \<open>None\<close> nor zero), else a base price; with the number of draws used.
\<close>

definition price_or_base :: "Seed \<Rightarrow> (nat \<Rightarrow> nat) \<Rightarrow> rat \<times> nat" where
  "price_or_base seed rnd =
     (case Seed_price seed of
        None \<Rightarrow> (calculate_base_price (rnd 0), 1)
      | Some p \<Rightarrow> if p \<noteq> 0 then (p, 0) else (calculate_base_price (rnd 0), 1))"

text \<open>
  \<open>get_price_history\<close>. The in-memory store never raises, so the \<open>except\<close> branches (the
  direct SQL fallback) are not part of the model. \<open>clk 0\<close> is the reading of the clock for
  the cutoff, \<open>clk 1\<close> the one for the placeholder.
\<close>

definition get_price_history ::
  "database \<Rightarrow> (nat \<Rightarrow> timestamp) \<Rightarrow> (nat \<Rightarrow> nat) \<Rightarrow> int \<Rightarrow> string \<Rightarrow>
     SeedPrice list \<times> database" where
  "get_price_history db clk rnd seed_id timeframe =
     (let days = dict_get timeframe_days timeframe 7;
          cutoff_date = clk 0 - timedelta_days days
      in case Seed_query_get db seed_id of
           None \<Rightarrow> ([], db)
         | Some seed \<Rightarrow>
             (let prices = order_by_recorded_at
                    (filter (\<lambda>p. SeedPrice_seed_id p = seed_id \<and>
                                 cutoff_date \<le> SeedPrice_recorded_at p) (seed_prices db))
              in if prices \<noteq> [] then (prices, db)
                 else
                   (let (price, used) = price_or_base seed rnd;
                        new_price = \<lparr>SeedPrice_id = None, SeedPrice_seed_id = seed_id,
                                      SeedPrice_price = price,
                                      SeedPrice_volume = Some (randint 500 1000 (rnd used)),
                                      SeedPrice_recorded_at = clk 1\<rparr>;
                        (saved, db') = session_add_price db new_price
                    in ([saved], db'))))"

text \<open>
  The loop of \<open>update_seed_prices\<close>: \<open>k\<close> counts the readings of the clock, \<open>i\<close> the
  draws of the random source made so far.
\<close>

fun update_loop ::
  "database \<Rightarrow> (nat \<Rightarrow> timestamp) \<Rightarrow> (nat \<Rightarrow> nat) \<Rightarrow> Seed list \<Rightarrow> nat \<Rightarrow> nat \<Rightarrow>
     SeedPrice list" where
  "update_loop db clk rnd [] k i = []"
| "update_loop db clk rnd (seed # rest) k i =
     (case latest_price_of db (Seed_id seed) of
        Some latest_price \<Rightarrow>
          \<lparr>SeedPrice_id = None, SeedPrice_seed_id = Seed_id seed,
            SeedPrice_price =
              calculate_price_change (SeedPrice_price latest_price) (1 / 50) (rnd i) (rnd (i + 1)),
            SeedPrice_volume = Some (randint 500 10500 (rnd (i + 2))),
            SeedPrice_recorded_at = clk k\<rparr>
          # update_loop db clk rnd rest (k + 1) (i + 3)
      | None \<Rightarrow>
          \<lparr>SeedPrice_id = None, SeedPrice_seed_id = Seed_id seed,
            SeedPrice_price = calculate_base_price (rnd i),
            SeedPrice_volume = Some (randint 500 10500 (rnd (i + 1))),
            SeedPrice_recorded_at = clk k\<rparr>
          # update_loop db clk rnd rest (k + 1) (i + 2))"

definition update_seed_prices ::
  "database \<Rightarrow> (nat \<Rightarrow> timestamp) \<Rightarrow> (nat \<Rightarrow> nat) \<Rightarrow> nat \<times> database" where
  "update_seed_prices db clk rnd =
     (let updates = update_loop db clk rnd (seeds db) 0 0
      in (length updates, bulk_save_objects db updates))"

text \<open>
  \<open>n\<close> invocations in a row, the \<open>j\<close>-th with the clock readings \<open>clks j\<close> and the draws
  \<open>rnds j\<close>.
\<close>

fun update_seed_prices_times ::
  "nat \<Rightarrow> (nat \<Rightarrow> nat \<Rightarrow> timestamp) \<Rightarrow> (nat \<Rightarrow> nat \<Rightarrow> nat) \<Rightarrow> database \<Rightarrow> database" where
  "update_seed_prices_times 0 clks rnds db = db"
| "update_seed_prices_times (Suc n) clks rnds db =
     update_seed_prices_times n (\<lambda>j. clks (Suc j)) (\<lambda>j. rnds (Suc j))
       (snd (update_seed_prices db (clks 0) (rnds 0)))"

section \<open>Routes (routes/api.py, routes/auth.py)\<close>

text \<open>
  A response is the JSON body and the HTTP status. A request body is a record of the keys
  the handler reads: \<open>None\<close> is a key that is absent, \<open>Some v\<close> a key with a value of the
  column's type. A JSON \<open>null\<close> and a value of another type are outside the model.
\<close>

datatype response_body =
    JsonError string
  | JsonPriceList "SeedPrice list"
  | JsonSeed Seed
  | JsonRegistered string User
  | NotFound

type_synonym response = "response_body \<times> nat"

definition get_seed_prices ::
  "database \<Rightarrow> (nat \<Rightarrow> timestamp) \<Rightarrow> (nat \<Rightarrow> nat) \<Rightarrow> int \<Rightarrow> string option \<Rightarrow>
     response \<times> database" where
  "get_seed_prices db clk rnd seed_id timeframe_arg =
     (let timeframe = (case timeframe_arg of Some t \<Rightarrow> t | None \<Rightarrow> ''1w'');
          (price_history, db') = get_price_history db clk rnd seed_id timeframe
      in if price_history = [] then ((JsonPriceList [], 200), db')
         else ((JsonPriceList price_history, 200), db'))"

record SeedUpdate =
  data_name :: "string option"
  data_species :: "string option"
  data_quantity :: "int option"
  data_price :: "rat option"
  data_description :: "string option"

definition update_seed ::
  "database \<Rightarrow> (nat \<Rightarrow> timestamp) \<Rightarrow> int \<Rightarrow> SeedUpdate \<Rightarrow> response \<times> database" where
  "update_seed db clk i data =
     (case Seed_query_get db i of
        None \<Rightarrow> ((NotFound, 404), db)
      | Some seed0 \<Rightarrow>
          (let seed1 = seed0\<lparr>Seed_name :=
                 (case data_name data of Some v \<Rightarrow> v | None \<Rightarrow> Seed_name seed0)\<rparr>;
               seed2 = seed1\<lparr>Seed_species :=
                 (case data_species data of Some v \<Rightarrow> Some v | None \<Rightarrow> Seed_species seed1)\<rparr>;
               seed3 = seed2\<lparr>Seed_quantity :=
                 (case data_quantity data of Some v \<Rightarrow> Some v | None \<Rightarrow> Seed_quantity seed2)\<rparr>;
               (seed4, added) =
                 (case data_price data of
                    None \<Rightarrow> (seed3, [])
                  | Some v \<Rightarrow>
                      if Some v \<noteq> Seed_price seed3
                      then (seed3\<lparr>Seed_price := Some v\<rparr>,
                            [\<lparr>SeedPrice_id = None, SeedPrice_seed_id = Seed_id seed3,
                              SeedPrice_price = v, SeedPrice_volume = Seed_quantity seed3,
                              SeedPrice_recorded_at = clk 0\<rparr>])
                      else (seed3, []));
               seed5 = seed4\<lparr>Seed_description :=
                 (case data_description data of
                    Some v \<Rightarrow> Some v | None \<Rightarrow> Seed_description seed4)\<rparr>;
               db1 = db\<lparr>seeds := map (\<lambda>s. if Seed_id s = Seed_id seed5 then seed5 else s)
                                      (seeds db)\<rparr>
           in ((JsonSeed seed5, 200), bulk_save_objects db1 added)))"

record Registration =
  data_username :: "string option"
  data_email :: "string option"
  data_password :: "string option"
  data_first_name :: "string option"
  data_last_name :: "string option"

text \<open>
  \<open>register\<close>. \<open>request.json\<close> is \<open>None\<close> or the body; \<open>not data.get(key)\<close> holds for an
  absent key and for the empty string. \<open>set_password\<close> is in \<open>models/models.py\<close>; the
  hash it stores is the parameter \<open>hash_password\<close>.
\<close>

definition register ::
  "(string \<Rightarrow> string) \<Rightarrow> database \<Rightarrow> Registration option \<Rightarrow> response \<times> database" where
  "register hash_password db request_json =
     (case request_json of
        None \<Rightarrow> ((JsonError ''Username, email, and password are required'', 400), db)
      | Some data \<Rightarrow>
          (case (data_username data, data_email data, data_password data) of
             (Some username, Some email, Some password) \<Rightarrow>
               if username = [] \<or> email = [] \<or> password = []
               then ((JsonError ''Username, email, and password are required'', 400), db)
               else if find (\<lambda>u. User_username u = username) (users db) \<noteq> None
               then ((JsonError ''Username already exists'', 400), db)
               else if find (\<lambda>u. User_email u = email) (users db) \<noteq> None
               then ((JsonError ''Email already exists'', 400), db)
               else
                 (let new_user = \<lparr>User_id = Some (user_seq db), User_username = username,
                        User_email = email, User_password_hash = hash_password password,
                        User_first_name =
                          (case data_first_name data of Some v \<Rightarrow> v | None \<Rightarrow> []),
                        User_last_name =
                          (case data_last_name data of Some v \<Rightarrow> v | None \<Rightarrow> []),
                        User_last_login = None\<rparr>
                  in ((JsonRegistered ''User registered successfully'' new_user, 201),
                      db\<lparr>users := users db @ [new_user], user_seq := user_seq db + 1\<rparr>))
           | _ \<Rightarrow> ((JsonError ''Username, email, and password are required'', 400), db)))"

section \<open>Sample data\<close>

text \<open>
  A small store on which the theorems below are run: Tomato with three observations
  (inserted out of order), Basil created with price \<open>0\<close> and so without an observation
  (\<open>create_seed\<close> adds the first one only \<open>if new_seed.price\<close>), Carrot with a single
  observation, and one user. \<open>sample_now\<close> is day 100 of the clock.
\<close>

definition day :: int where
  "day = 86400000000"

definition sample_now :: timestamp where
  "sample_now = 100 * day"

definition tomato :: Seed where
  "tomato = \<lparr>Seed_id = 1, Seed_name = ''Tomato'', Seed_species = Some ''Solanum'',
              Seed_quantity = Some 100, Seed_price = Some (5 / 2), Seed_description = None\<rparr>"

definition basil :: Seed where
  "basil = \<lparr>Seed_id = 2, Seed_name = ''Basil'', Seed_species = None,
             Seed_quantity = Some 0, Seed_price = Some 0, Seed_description = None\<rparr>"

definition carrot :: Seed where
  "carrot = \<lparr>Seed_id = 3, Seed_name = ''Carrot'', Seed_species = None,
              Seed_quantity = Some 50, Seed_price = Some (3 / 2), Seed_description = None\<rparr>"

definition tomato_yesterday :: SeedPrice where
  "tomato_yesterday = \<lparr>SeedPrice_id = Some 1, SeedPrice_seed_id = 1, SeedPrice_price = 5 / 2,
       SeedPrice_volume = Some 100, SeedPrice_recorded_at = 99 * day\<rparr>"

definition tomato_old :: SeedPrice where
  "tomato_old = \<lparr>SeedPrice_id = Some 2, SeedPrice_seed_id = 1, SeedPrice_price = 12 / 5,
       SeedPrice_volume = Some 700, SeedPrice_recorded_at = 90 * day\<rparr>"

definition tomato_two_days :: SeedPrice where
  "tomato_two_days = \<lparr>SeedPrice_id = Some 3, SeedPrice_seed_id = 1, SeedPrice_price = 49 / 20,
       SeedPrice_volume = Some 900, SeedPrice_recorded_at = 98 * day\<rparr>"

definition carrot_yesterday :: SeedPrice where
  "carrot_yesterday = \<lparr>SeedPrice_id = Some 4, SeedPrice_seed_id = 3, SeedPrice_price = 3 / 2,
       SeedPrice_volume = Some 50, SeedPrice_recorded_at = 99 * day\<rparr>"

definition alice :: User where
  "alice = \<lparr>User_id = Some 1, User_username = ''alice'', User_email = ''alice@example.org'',
             User_password_hash = ''x'', User_first_name = ''Alice'', User_last_name = [],
             User_last_login = None\<rparr>"

definition sample_db :: database where
  "sample_db = \<lparr>seeds = [tomato, basil, carrot],
       seed_prices = [tomato_yesterday, tomato_old, tomato_two_days, carrot_yesterday],
       users = [alice], seed_price_seq = 5, user_seq = 2\<rparr>"

text \<open>The market summary of the sample store.\<close>

definition tomato_summary :: SeedSummary where
  "tomato_summary = \<lparr>summary_id = 1, summary_name = ''Tomato'',
       summary_species = Some ''Solanum'', currentPrice = 5 / 2, previousPrice = 49 / 20,
       change = 1 / 20, changePercent = 2, volume = 100, summary_description = None\<rparr>"

definition carrot_summary :: SeedSummary where
  "carrot_summary = \<lparr>summary_id = 3, summary_name = ''Carrot'', summary_species = None,
       currentPrice = 3 / 2, previousPrice = 3 / 2, change = 0, changePercent = 0,
       volume = 50, summary_description = None\<rparr>"

definition sample_summary :: MarketSummary where
  "sample_summary = \<lparr>summary_seeds = [tomato_summary, carrot_summary],
       marketStats = \<lparr>totalVolume = 150, marketCap = 4000, seedCount = 3\<rparr>\<rparr>"

text \<open>A clock that advances by one microsecond at each reading, and a constant draw.\<close>

definition clock_from :: "timestamp \<Rightarrow> nat \<Rightarrow> timestamp" where
  "clock_from t k = t + int k"

definition constant_draws :: "nat \<Rightarrow> nat \<Rightarrow> nat" where
  "constant_draws d i = d"

text \<open>Requests: a second registration as alice, a new price and a new name for Tomato.\<close>

definition second_alice :: Registration where
  "second_alice = \<lparr>data_username = Some ''alice'', data_email = Some ''other@example.org'',
       data_password = Some ''secret'', data_first_name = None, data_last_name = None\<rparr>"

definition reprice_tomato :: SeedUpdate where
  "reprice_tomato = \<lparr>data_name = None, data_species = None, data_quantity = Some 80,
       data_price = Some 3, data_description = None\<rparr>"

definition rename_tomato :: SeedUpdate where
  "rename_tomato = \<lparr>data_name = Some ''Roma'', data_species = None, data_quantity = None,
       data_price = Some (5 / 2), data_description = None\<rparr>"

text \<open>The clock and the draws of the \<open>j\<close>-th tick of the scheduler, 30 seconds apart.\<close>

definition tick_clock :: "nat \<Rightarrow> nat \<Rightarrow> timestamp" where
  "tick_clock j k = sample_now + 30000000 * int j + int k"

definition tick_draws :: "nat \<Rightarrow> nat \<Rightarrow> nat" where
  "tick_draws j i = 1000 * j + i"

section \<open>Rounding and the random source: basic facts\<close>

lemma floor_numeral_divide:
  "floor (numeral a / numeral b :: rat) = numeral a div numeral b"
  using floor_divide_of_int_eq [of "numeral a" "numeral b", where ?'a = rat] by simp

lemma round_half_even_ge_floor: "floor x \<le> round_half_even x"
  by (simp add: round_half_even_def Let_def)

lemma round_half_even_lower:
  assumes "of_int m \<le> x"
  shows "m \<le> round_half_even x"
proof -
  from assms have "m \<le> floor x" by (simp add: le_floor_iff)
  with round_half_even_ge_floor [of x] show ?thesis by linarith
qed

lemma round_half_even_upper:
  assumes "x \<le> of_int m"
  shows "round_half_even x \<le> m"
proof (cases "x = of_int m")
  case True
  then show ?thesis by (simp add: round_half_even_def)
next
  case False
  with assms have "x < of_int m" by simp
  then have "floor x < m" by (simp add: floor_less_iff)
  then have "floor x + 1 \<le> m" by simp
  then show ?thesis by (simp add: round_half_even_def Let_def)
qed


lemma py_round_lower:
  assumes "of_int m / 10 ^ n \<le> x"
  shows "of_int m / 10 ^ n \<le> py_round x n"
proof -
  from assms have "of_int m \<le> x * 10 ^ n" by (simp add: pos_divide_le_eq)
  then have "m \<le> round_half_even (x * 10 ^ n)" by (rule round_half_even_lower)
  then show ?thesis by (simp add: py_round_def divide_right_mono)
qed

lemma py_round_upper:
  assumes "x \<le> of_int m / 10 ^ n"
  shows "py_round x n \<le> of_int m / 10 ^ n"
proof -
  from assms have "x * 10 ^ n \<le> of_int m" by (simp add: pos_le_divide_eq)
  then have "round_half_even (x * 10 ^ n) \<le> m" by (rule round_half_even_upper)
  then show ?thesis by (simp add: py_round_def divide_right_mono)
qed


lemma random_unit_range: "0 \<le> random_unit d \<and> random_unit d < 1"
proof -
  have "d mod 2 ^ 53 < (2::nat) ^ 53" by simp
  then have "(of_nat (d mod 2 ^ 53) :: rat) < of_nat (2 ^ 53)"
    by (simp only: of_nat_less_iff)
  then show ?thesis by (simp add: random_unit_def)
qed

lemma randint_range: "a \<le> b \<Longrightarrow> a \<le> randint a b d \<and> randint a b d \<le> b"
proof -
  assume ab: "a \<le> b"
  then have "0 < nat (b - a + 1)" by simp
  then have "d mod nat (b - a + 1) < nat (b - a + 1)" by (rule mod_less_divisor)
  then have "int (d mod nat (b - a + 1)) < int (nat (b - a + 1))" by (simp only: of_nat_less_iff)
  with ab have "int (d mod nat (b - a + 1)) < b - a + 1" by simp
  then show ?thesis by (simp add: randint_def)
qed

lemma calculate_base_price_range:
  "1 \<le> calculate_base_price d \<and> calculate_base_price d \<le> 6"
proof -
  from random_unit_range [of d] have u: "1 \<le> uniform 1 6 d" "uniform 1 6 d \<le> 6"
    by (simp_all add: uniform_def)
  from u(1) have "of_int 100 / 10 ^ 2 \<le> uniform 1 6 d" by simp
  then have lo: "of_int 100 / 10 ^ 2 \<le> py_round (uniform 1 6 d) 2" by (rule py_round_lower)
  from u(2) have "uniform 1 6 d \<le> of_int 600 / 10 ^ 2" by simp
  then have hi: "py_round (uniform 1 6 d) 2 \<le> of_int 600 / 10 ^ 2" by (rule py_round_upper)
  from lo hi show ?thesis by (simp add: calculate_base_price_def)
qed

lemmas sample_defs = sample_db_def tomato_def basil_def carrot_def tomato_yesterday_def
  tomato_old_def tomato_two_days_def carrot_yesterday_def alice_def day_def sample_now_def
  clock_from_def constant_draws_def

section \<open>Price history\<close>

lemma timeframe_table:
  "dict_get timeframe_days tf 7 =
     (if tf = ''1d'' then 1 else if tf = ''1w'' then 7 else if tf = ''1m'' then 30
      else if tf = ''3m'' then 90 else if tf = ''1y'' then 365 else 7)"
  by (simp add: dict_get_def timeframe_days_def)

lemma Seed_query_get_None:
  "(Seed_query_get db sid = None) = (\<forall>s \<in> set (seeds db). Seed_id s \<noteq> sid)"
  by (auto simp: Seed_query_get_def find_None_iff)

lemma Seed_query_get_Some:
  "Seed_query_get db sid = Some seed \<Longrightarrow> seed \<in> set (seeds db) \<and> Seed_id seed = sid"
  by (auto simp: Seed_query_get_def find_Some_iff)

lemma order_by_recorded_at_Nil: "(order_by_recorded_at xs = []) = (xs = [])"
proof -
  have "length (order_by_recorded_at xs) = length xs"
    by (simp add: order_by_recorded_at_def)
  then show ?thesis by (metis length_0_conv)
qed

lemma get_price_history_found:
  assumes "Seed_query_get db sid = Some seed"
    and "filter (\<lambda>p. SeedPrice_seed_id p = sid \<and>
           clk 0 - timedelta_days (dict_get timeframe_days tf 7) \<le> SeedPrice_recorded_at p) (seed_prices db) \<noteq> []"
  shows "get_price_history db clk rnd sid tf =
     (order_by_recorded_at (filter (\<lambda>p. SeedPrice_seed_id p = sid \<and>
           clk 0 - timedelta_days (dict_get timeframe_days tf 7) \<le> SeedPrice_recorded_at p) (seed_prices db)), db)"
  using assms by (simp add: get_price_history_def Let_def order_by_recorded_at_Nil)

lemma get_price_history_empty:
  assumes "Seed_query_get db sid = Some seed"
    and "filter (\<lambda>p. SeedPrice_seed_id p = sid \<and>
           clk 0 - timedelta_days (dict_get timeframe_days tf 7) \<le> SeedPrice_recorded_at p) (seed_prices db) = []"
  shows "get_price_history db clk rnd sid tf =
     (let saved = \<lparr>SeedPrice_id = Some (seed_price_seq db), SeedPrice_seed_id = sid,
         SeedPrice_price = fst (price_or_base seed rnd),
         SeedPrice_volume = Some (randint 500 1000 (rnd (snd (price_or_base seed rnd)))),
         SeedPrice_recorded_at = clk 1\<rparr>
      in ([saved], db\<lparr>seed_prices := seed_prices db @ [saved],
                        seed_price_seq := seed_price_seq db + 1\<rparr>))"
  using assms
  by (simp add: get_price_history_def Let_def order_by_recorded_at_Nil session_add_price_def
        split: prod.splits)

lemma get_price_history_nonempty:
  assumes "Seed_query_get db sid = Some seed"
  shows "fst (get_price_history db clk rnd sid tf) \<noteq> []"
proof (cases "filter (\<lambda>p. SeedPrice_seed_id p = sid \<and>
           clk 0 - timedelta_days (dict_get timeframe_days tf 7) \<le> SeedPrice_recorded_at p) (seed_prices db) = []")
  case True
  with assms show ?thesis by (simp add: get_price_history_empty Let_def)
next
  case False
  with assms show ?thesis by (simp add: get_price_history_found order_by_recorded_at_Nil)
qed

lemma price_or_base_cases:
  "fst (price_or_base seed rnd) =
     (case Seed_price seed of
        None \<Rightarrow> calculate_base_price (rnd 0)
      | Some p \<Rightarrow> if p \<noteq> 0 then p else calculate_base_price (rnd 0))"
  by (simp add: price_or_base_def split: option.splits)

text \<open>
  C3. The timeframe is looked up in the table \<open>1d:1, 1w:7, 1m:30, 3m:90, 1y:365\<close>, any other
  string giving 7 days, and the route's default is \<open>1w\<close>. For a seed that exists and has
  rows from the cutoff \<open>now - days\<close> on, \<open>get_price_history\<close> returns exactly these rows of
  the seed (as a multiset), in non-decreasing order of \<open>recorded_at\<close>, and leaves the store
  as it was.
\<close>

theorem get_price_history_window_sorted:
  fixes db :: database and clk :: "nat \<Rightarrow> timestamp" and tf :: string and sid :: int
  defines "days \<equiv> dict_get timeframe_days tf 7"
  defines "matching \<equiv> filter (\<lambda>p. SeedPrice_seed_id p = sid \<and>
             clk 0 - timedelta_days days \<le> SeedPrice_recorded_at p) (seed_prices db)"
  assumes "Seed_query_get db sid = Some seed" and "matching \<noteq> []"
  shows "days = (if tf = ''1d'' then 1 else if tf = ''1w'' then 7 else if tf = ''1m'' then 30
            else if tf = ''3m'' then 90 else if tf = ''1y'' then 365 else 7)
    \<and> get_seed_prices db clk rnd sid None = get_seed_prices db clk rnd sid (Some ''1w'')
    \<and> snd (get_price_history db clk rnd sid tf) = db
    \<and> mset (fst (get_price_history db clk rnd sid tf)) = mset matching
    \<and> sorted (map SeedPrice_recorded_at (fst (get_price_history db clk rnd sid tf)))"
proof -
  have tbl: "days = (if tf = ''1d'' then 1 else if tf = ''1w'' then 7 else if tf = ''1m'' then 30
            else if tf = ''3m'' then 90 else if tf = ''1y'' then 365 else 7)"
    unfolding days_def by (rule timeframe_table)
  have dflt: "get_seed_prices db clk rnd sid None = get_seed_prices db clk rnd sid (Some ''1w'')"
    by (simp add: get_seed_prices_def)
  from assms have res: "get_price_history db clk rnd sid tf = (order_by_recorded_at matching, db)"
    unfolding matching_def days_def by (simp add: get_price_history_found)
  have "mset (order_by_recorded_at matching) = mset matching"
    by (simp add: order_by_recorded_at_def)
  moreover have "sorted (map SeedPrice_recorded_at (order_by_recorded_at matching))"
    by (simp add: order_by_recorded_at_def)
  ultimately show ?thesis using tbl dflt res by simp
qed

theorem get_price_history_window_sorted_witness:
  "Seed_query_get sample_db 1 = Some tomato
   \<and> mset (fst (get_price_history sample_db (clock_from sample_now) (constant_draws 0) 1 ''1w''))
       = mset [tomato_yesterday, tomato_two_days]
   \<and> sorted (map SeedPrice_recorded_at
        (fst (get_price_history sample_db (clock_from sample_now) (constant_draws 0) 1 ''1w'')))"
  using get_price_history_window_sorted
    [of sample_db 1 tomato "clock_from sample_now" "''1w''" "constant_draws 0"]
  by (simp add: sample_defs Seed_query_get_def dict_get_def timeframe_days_def timedelta_days_def)

text \<open>
  C6. For a seed id that no seed has, \<open>get_price_history\<close> returns the empty list and leaves
  the store as it was, and the route \<open>GET /seeds/<id>/prices\<close> answers with the empty JSON
  array and status 200.
\<close>

theorem get_price_history_missing_seed:
  assumes "\<forall>s \<in> set (seeds db). Seed_id s \<noteq> sid"
  shows "get_price_history db clk rnd sid tf = ([], db)
    \<and> get_seed_prices db clk rnd sid arg = ((JsonPriceList [], 200), db)"
proof -
  from assms have "Seed_query_get db sid = None" by (simp add: Seed_query_get_None)
  then have "get_price_history db clk rnd sid t = ([], db)" for t
    by (simp add: get_price_history_def Let_def)
  then show ?thesis by (simp add: get_seed_prices_def)
qed

theorem get_price_history_missing_seed_witness:
  "get_price_history sample_db (clock_from sample_now) (constant_draws 0) 7 ''1m'' = ([], sample_db)
    \<and> get_seed_prices sample_db (clock_from sample_now) (constant_draws 0) 7 (Some ''1m'')
        = ((JsonPriceList [], 200), sample_db)"
  using get_price_history_missing_seed
    [of sample_db 7 "clock_from sample_now" "constant_draws 0" "''1m''" "Some ''1m''"]
  by (simp add: sample_defs)

section \<open>The price floor and the rounding of the random walk\<close>

text \<open>
  C2. Whatever the previous price, the volatility and the two draws of the random source,
  \<open>calculate_price_change\<close> returns \<open>round(max(0.2, p + p * change), 2)\<close> with
  \<open>change = (U - 0.5) * volatility + trend * 0.02\<close>, \<open>U\<close> in \<open>[0, 1)\<close> and \<open>trend\<close> one
  of \<open>1\<close> and \<open>-1\<close>; the result is at least \<open>0.20\<close> and is a whole number of hundredths.
\<close>

theorem calculate_price_change_floor_rounded:
  fixes p volatility :: rat and d1 d2 :: nat
  defines "trend \<equiv> (if 1 / 2 < random_unit d1 then 1 else - 1 :: rat)"
  defines "walk \<equiv> (random_unit d2 - 1 / 2) * volatility + trend * (1 / 50)"
  shows "calculate_price_change p volatility d1 d2 = py_round (max (1 / 5) (p + p * walk)) 2
    \<and> 1 / 5 \<le> calculate_price_change p volatility d1 d2
    \<and> (\<exists>k :: int. calculate_price_change p volatility d1 d2 = of_int k / 100)
    \<and> 0 \<le> random_unit d2 \<and> random_unit d2 < 1
    \<and> (trend = 1 \<or> trend = - 1)"
proof -
  have eq: "calculate_price_change p volatility d1 d2 = py_round (max (1 / 5) (p + p * walk)) 2"
    by (simp add: calculate_price_change_def trend_def walk_def Let_def)
  have "of_int 20 / 10 ^ 2 \<le> max (1 / 5) (p + p * walk)" by simp
  then have "of_int 20 / 10 ^ 2 \<le> py_round (max (1 / 5) (p + p * walk)) 2"
    by (rule py_round_lower)
  with eq have floor: "1 / 5 \<le> calculate_price_change p volatility d1 d2" by simp
  have cents: "\<exists>k :: int. calculate_price_change p volatility d1 d2 = of_int k / 100"
    unfolding eq py_round_def
    by (intro exI [of _ "round_half_even (max (1 / 5) (p + p * walk) * 10 ^ 2)"]) simp
  have tr: "trend = 1 \<or> trend = - 1" by (simp add: trend_def)
  from eq floor cents random_unit_range [of d2] tr show ?thesis by blast
qed

theorem calculate_price_change_floor_rounded_witness:
  "calculate_price_change (5 / 2) (1 / 50) 0 0 = 121 / 50
   \<and> 1 / 5 \<le> calculate_price_change (5 / 2) (1 / 50) 0 0
   \<and> calculate_price_change (1 / 10) (1 / 50) 0 0 = 1 / 5"
  using calculate_price_change_floor_rounded [of "5 / 2" "1 / 50" 0 0]
  by (simp add: calculate_price_change_def random_unit_def py_round_def round_half_even_def
        floor_numeral_divide Let_def)


section \<open>The placeholder observation\<close>

lemma in_set_not_Nil: "x \<in> set xs \<Longrightarrow> xs \<noteq> []"
  by auto

text \<open>
  C1, as amended. For a seed that exists and has no row from the cutoff on,
  \<open>get_price_history\<close> returns one new row and appends it to the stored observations: its
  price is the seed's stored price when that is present and not zero, and else a fresh base
  price (which lies in \<open>[1, 6]\<close>); its volume lies in \<open>[500, 1000]\<close>; its timestamp is the
  second reading of the clock. A second call for the seed returns at least one row, and it
  returns this row whenever its own cutoff is not later than the row's timestamp.
\<close>

theorem get_price_history_placeholder:
  fixes db :: database and clk clk2 :: "nat \<Rightarrow> timestamp" and rnd rnd2 :: "nat \<Rightarrow> nat"
    and tf :: string and sid :: int and seed :: Seed
  defines "days \<equiv> dict_get timeframe_days tf 7"
  defines "vol \<equiv> randint 500 1000 (rnd (snd (price_or_base seed rnd)))"
  defines "row \<equiv> \<lparr>SeedPrice_id = Some (seed_price_seq db), SeedPrice_seed_id = sid,
       SeedPrice_price =
         (case Seed_price seed of
            None \<Rightarrow> calculate_base_price (rnd 0)
          | Some p \<Rightarrow> if p \<noteq> 0 then p else calculate_base_price (rnd 0)),
       SeedPrice_volume = Some vol, SeedPrice_recorded_at = clk 1\<rparr>"
  defines "db' \<equiv> snd (get_price_history db clk rnd sid tf)"
  assumes seed: "Seed_query_get db sid = Some seed"
    and none: "filter (\<lambda>p. SeedPrice_seed_id p = sid \<and>
           clk 0 - timedelta_days days \<le> SeedPrice_recorded_at p) (seed_prices db) = []"
  shows "fst (get_price_history db clk rnd sid tf) = [row]
    \<and> seed_prices db' = seed_prices db @ [row] \<and> seeds db' = seeds db
    \<and> 500 \<le> vol \<and> vol \<le> 1000
    \<and> 1 \<le> calculate_base_price (rnd 0) \<and> calculate_base_price (rnd 0) \<le> 6
    \<and> fst (get_price_history db' clk2 rnd2 sid tf) \<noteq> []
    \<and> (clk2 0 - timedelta_days days \<le> clk 1 \<longrightarrow>
         row \<in> set (fst (get_price_history db' clk2 rnd2 sid tf)))"
proof -
  from seed none have res: "get_price_history db clk rnd sid tf =
      ([row], db\<lparr>seed_prices := seed_prices db @ [row],
                   seed_price_seq := seed_price_seq db + 1\<rparr>)"
    unfolding days_def row_def vol_def
    by (simp add: get_price_history_empty price_or_base_cases Let_def)
  then have db': "db' = db\<lparr>seed_prices := seed_prices db @ [row],
                   seed_price_seq := seed_price_seq db + 1\<rparr>"
    by (simp add: db'_def)
  have vol: "500 \<le> vol \<and> vol \<le> 1000"
    unfolding vol_def by (rule randint_range) simp
  from seed db' have seed': "Seed_query_get db' sid = Some seed"
    by (simp add: Seed_query_get_def)
  then have again: "fst (get_price_history db' clk2 rnd2 sid tf) \<noteq> []"
    by (rule get_price_history_nonempty)
  have inside: "row \<in> set (fst (get_price_history db' clk2 rnd2 sid tf))"
    if "clk2 0 - timedelta_days days \<le> clk 1"
  proof -
    let ?m = "filter (\<lambda>p. SeedPrice_seed_id p = sid \<and>
           clk2 0 - timedelta_days (dict_get timeframe_days tf 7) \<le> SeedPrice_recorded_at p)
           (seed_prices db')"
    from that have mem: "row \<in> set ?m"
      by (simp add: db' row_def days_def)
    then have "?m \<noteq> []" by (rule in_set_not_Nil)
    with seed' have "get_price_history db' clk2 rnd2 sid tf = (order_by_recorded_at ?m, db')"
      by (rule get_price_history_found)
    with mem show ?thesis by (simp add: order_by_recorded_at_def)
  qed
  from res db' vol calculate_base_price_range [of "rnd 0"] again inside show ?thesis
    by simp
qed

theorem get_price_history_placeholder_witness:
  "Seed_query_get sample_db 2 = Some basil
   \<and> map SeedPrice_price
       (fst (get_price_history sample_db (clock_from sample_now) (constant_draws 0) 2 ''1w'')) = [1]
   \<and> fst (get_price_history
        (snd (get_price_history sample_db (clock_from sample_now) (constant_draws 0) 2 ''1w''))
        (clock_from (sample_now + day)) (constant_draws 3) 2 ''1w'') \<noteq> []"
  using get_price_history_placeholder
    [of sample_db 2 basil "clock_from sample_now" "''1w''" "constant_draws 0"
       "clock_from (sample_now + day)" "constant_draws 3"]
  by (simp add: sample_defs Seed_query_get_def dict_get_def timeframe_days_def timedelta_days_def
        calculate_base_price_def uniform_def random_unit_def py_round_def round_half_even_def)

text \<open>
  C1 as stated fails for a stored price of zero: Basil has the stored price \<open>0\<close> and no
  observation, and the placeholder gets the base price \<open>1.00\<close>, not the stored price.
\<close>

theorem placeholder_price_zero_counterexample:
  "Seed_query_get sample_db 2 = Some basil \<and> Seed_price basil = Some 0
   \<and> filter_by_seed_id sample_db 2 = []
   \<and> map SeedPrice_price
       (fst (get_price_history sample_db (clock_from sample_now) (constant_draws 0) 2 ''1w'')) = [1]
   \<and> map SeedPrice_price
       (fst (get_price_history sample_db (clock_from sample_now) (constant_draws 0) 2 ''1w'')) \<noteq> [0]"
  by (simp add: get_price_history_def sample_defs Seed_query_get_def dict_get_def
        timeframe_days_def timedelta_days_def order_by_recorded_at_def Let_def price_or_base_def
        session_add_price_def calculate_base_price_def uniform_def random_unit_def py_round_def
        round_half_even_def filter_by_seed_id_def)


section \<open>The scheduled update\<close>

lemma session_add_price_frame:
  "seeds (snd (session_add_price db row)) = seeds db
   \<and> users (snd (session_add_price db row)) = users db
   \<and> seed_prices (snd (session_add_price db row))
       = seed_prices db @ [row\<lparr>SeedPrice_id := Some (seed_price_seq db)\<rparr>]"
  by (simp add: session_add_price_def Let_def)

lemma bulk_save_objects_rows:
  "seeds (bulk_save_objects db rows) = seeds db
   \<and> users (bulk_save_objects db rows) = users db
   \<and> (\<exists>new. seed_prices (bulk_save_objects db rows) = seed_prices db @ new
         \<and> map (\<lambda>r. r\<lparr>SeedPrice_id := None\<rparr>) new = map (\<lambda>r. r\<lparr>SeedPrice_id := None\<rparr>) rows)"
proof (induction rows arbitrary: db)
  case Nil
  show ?case by simp
next
  case (Cons row rows)
  let ?db1 = "snd (session_add_price db row)"
  from Cons.IH [of ?db1] obtain new where
    fr: "seeds (bulk_save_objects ?db1 rows) = seeds ?db1"
        "users (bulk_save_objects ?db1 rows) = users ?db1"
    and new: "seed_prices (bulk_save_objects ?db1 rows) = seed_prices ?db1 @ new"
        "map (\<lambda>r. r\<lparr>SeedPrice_id := None\<rparr>) new = map (\<lambda>r. r\<lparr>SeedPrice_id := None\<rparr>) rows"
    by blast
  let ?saved = "row\<lparr>SeedPrice_id := Some (seed_price_seq db)\<rparr>"
  have "seed_prices (bulk_save_objects db (row # rows)) = seed_prices db @ (?saved # new)"
    using new(1) by (simp add: session_add_price_frame)
  moreover have "map (\<lambda>r. r\<lparr>SeedPrice_id := None\<rparr>) (?saved # new)
      = map (\<lambda>r. r\<lparr>SeedPrice_id := None\<rparr>) (row # rows)"
    using new(2) by simp
  ultimately have "\<exists>new. seed_prices (bulk_save_objects db (row # rows)) = seed_prices db @ new
         \<and> map (\<lambda>r. r\<lparr>SeedPrice_id := None\<rparr>) new = map (\<lambda>r. r\<lparr>SeedPrice_id := None\<rparr>) (row # rows)"
    by blast
  with fr show ?case by (simp add: session_add_price_frame)
qed


lemma update_loop_seed_ids:
  "map SeedPrice_seed_id (update_loop db clk rnd ss k i) = map Seed_id ss"
  by (induction ss arbitrary: k i) (simp_all split: option.splits)





lemma update_seed_prices_result:
  "fst (update_seed_prices db clk rnd) = length (seeds db)
   \<and> seeds (snd (update_seed_prices db clk rnd)) = seeds db
   \<and> users (snd (update_seed_prices db clk rnd)) = users db
   \<and> (\<exists>new. seed_prices (snd (update_seed_prices db clk rnd)) = seed_prices db @ new
         \<and> map (\<lambda>r. r\<lparr>SeedPrice_id := None\<rparr>) new
             = map (\<lambda>r. r\<lparr>SeedPrice_id := None\<rparr>) (update_loop db clk rnd (seeds db) 0 0))"
proof -
  have "length (update_loop db clk rnd (seeds db) 0 0) = length (seeds db)"
    using arg_cong [OF update_loop_seed_ids [of db clk rnd "seeds db" 0 0], of length]
    by (simp only: length_map)
  with bulk_save_objects_rows [of db "update_loop db clk rnd (seeds db) 0 0"]
  show ?thesis by (simp add: update_seed_prices_def Let_def)
qed


lemma update_seed_prices_times_seeds:
  "seeds (update_seed_prices_times n clks rnds db) = seeds db
   \<and> users (update_seed_prices_times n clks rnds db) = users db"
  by (induction n arbitrary: clks rnds db) (simp_all add: update_seed_prices_result)




text \<open>
  C7. \<open>update_seed_prices\<close> leaves the seed rows (and the user rows) exactly as they were,
  each seed's \<open>price\<close> included, and only appends to the price observations; the same holds
  after any number of invocations.
\<close>

theorem update_seed_prices_keeps_seeds:
  "seeds (snd (update_seed_prices db clk rnd)) = seeds db
   \<and> users (snd (update_seed_prices db clk rnd)) = users db
   \<and> (\<exists>new. seed_prices (snd (update_seed_prices db clk rnd)) = seed_prices db @ new)
   \<and> seeds (update_seed_prices_times n clks rnds db) = seeds db"
  using update_seed_prices_result [of db clk rnd] update_seed_prices_times_seeds [of n clks rnds db]
  by blast


theorem update_seed_prices_keeps_seeds_witness:
  "map Seed_price (seeds (snd (update_seed_prices sample_db (clock_from sample_now)
      (constant_draws 0)))) = [Some (5 / 2), Some 0, Some (3 / 2)]
   \<and> seeds (update_seed_prices_times 2 tick_clock tick_draws sample_db) = [tomato, basil, carrot]"
  using update_seed_prices_keeps_seeds
    [of sample_db "clock_from sample_now" "constant_draws 0" 2 tick_clock tick_draws]
  by (simp add: sample_defs)


section \<open>Registration and seed updates\<close>

text \<open>
  C8. A registration whose username is the username of a stored user is answered with
  status 400 and an error envelope, and the store (the user rows in particular) is left as
  it was, whatever the other fields of the request are.
\<close>

theorem register_duplicate_username:
  assumes "u \<in> set (users db)" and "data_username data = Some (User_username u)"
  shows "snd (fst (register hash_password db (Some data))) = 400
    \<and> (\<exists>msg. fst (fst (register hash_password db (Some data))) = JsonError msg)
    \<and> snd (register hash_password db (Some data)) = db"
proof -
  from assms(1) have "find (\<lambda>x. User_username x = User_username u) (users db) \<noteq> None"
    by (auto simp: find_None_iff)
  with assms(2) show ?thesis
    by (simp add: register_def split: option.splits)
qed

theorem register_duplicate_username_witness:
  "alice \<in> set (users sample_db)
   \<and> register id sample_db (Some second_alice)
      = ((JsonError ''Username already exists'', 400), sample_db)"
  using register_duplicate_username [of alice sample_db
      second_alice id]
  by (simp add: sample_defs second_alice_def register_def)

text \<open>
  C10. For \<open>PUT /seeds/<id>\<close> on a seed that exists: when the body has a \<open>price\<close> that
  differs from the seed's stored price, exactly one observation is appended, with this
  price, the seed's quantity (as just updated from the body) as its volume and the reading
  of the clock as its timestamp; when the body has no \<open>price\<close> or the same price, the
  observations stay as they were. In both cases the seed row takes the name, species,
  quantity and description the body provides, and the response is the updated seed with
  status 200.
\<close>

theorem update_seed_price_observation:
  fixes db :: database and clk :: "nat \<Rightarrow> timestamp" and i :: int and data :: SeedUpdate
    and seed :: Seed
  defines "quantity' \<equiv> (case data_quantity data of Some q \<Rightarrow> Some q | None \<Rightarrow> Seed_quantity seed)"
  defines "seed' \<equiv> \<lparr>Seed_id = i,
      Seed_name = (case data_name data of Some v \<Rightarrow> v | None \<Rightarrow> Seed_name seed),
      Seed_species = (case data_species data of Some v \<Rightarrow> Some v | None \<Rightarrow> Seed_species seed),
      Seed_quantity = quantity',
      Seed_price = (case data_price data of Some v \<Rightarrow> Some v | None \<Rightarrow> Seed_price seed),
      Seed_description =
        (case data_description data of Some v \<Rightarrow> Some v | None \<Rightarrow> Seed_description seed)\<rparr>"
  defines "db' \<equiv> snd (update_seed db clk i data)"
  assumes seed: "Seed_query_get db i = Some seed"
  shows "(case data_price data of
            None \<Rightarrow> seed_prices db' = seed_prices db
          | Some v \<Rightarrow>
              if Some v \<noteq> Seed_price seed
              then seed_prices db' = seed_prices db @
                     [\<lparr>SeedPrice_id = Some (seed_price_seq db), SeedPrice_seed_id = i,
                       SeedPrice_price = v, SeedPrice_volume = quantity',
                       SeedPrice_recorded_at = clk 0\<rparr>]
              else seed_prices db' = seed_prices db)
    \<and> fst (update_seed db clk i data) = (JsonSeed seed', 200)
    \<and> seeds db' = map (\<lambda>s. if Seed_id s = i then seed' else s) (seeds db)"
proof -
  from seed have i: "Seed_id seed = i" by (simp add: Seed_query_get_Some)
  obtain nm sp qu pr de where s: "seed = \<lparr>Seed_id = i, Seed_name = nm, Seed_species = sp,
      Seed_quantity = qu, Seed_price = pr, Seed_description = de\<rparr>"
    using i by (cases seed) simp
  show ?thesis
  proof (cases "data_price data")
    case None
    with seed show ?thesis
      unfolding db'_def seed'_def quantity'_def update_seed_def s
      by (simp add: Let_def cong: option.case_cong)
  next
    case (Some v)
    show ?thesis
    proof (cases "Some v = pr")
      case True
      then have pr: "pr = Some v" by simp
      from Some seed show ?thesis
        unfolding db'_def seed'_def quantity'_def update_seed_def s pr
        by (simp add: Let_def cong: option.case_cong)
    next
      case False
      with Some seed show ?thesis
        unfolding db'_def seed'_def quantity'_def update_seed_def s
        by (simp add: Let_def session_add_price_def cong: option.case_cong)
    qed
  qed
qed

theorem update_seed_price_observation_witness:
  "Seed_query_get sample_db 1 = Some tomato
   \<and> seed_prices (snd (update_seed sample_db (clock_from sample_now) 1 reprice_tomato))
       = seed_prices sample_db @
           [\<lparr>SeedPrice_id = Some 5, SeedPrice_seed_id = 1, SeedPrice_price = 3,
             SeedPrice_volume = Some 80, SeedPrice_recorded_at = sample_now\<rparr>]
   \<and> seed_prices (snd (update_seed sample_db (clock_from sample_now) 1 rename_tomato))
       = seed_prices sample_db
   \<and> map Seed_name (seeds (snd (update_seed sample_db (clock_from sample_now) 1 rename_tomato)))
       = [''Roma'', ''Basil'', ''Carrot'']"
  using update_seed_price_observation [of sample_db 1 tomato "clock_from sample_now" reprice_tomato]
    update_seed_price_observation [of sample_db 1 tomato "clock_from sample_now" rename_tomato]
  by (simp add: sample_defs Seed_query_get_def reprice_tomato_def rename_tomato_def)


section \<open>The market summary\<close>

lemma first_row_None: "(first_row xs = None) = (xs = [])"
  by (cases xs) (simp_all add: first_row_def)

lemma order_by_recorded_at_desc_length: "length (order_by_recorded_at_desc xs) = length xs"
  by (simp add: order_by_recorded_at_desc_def)

lemma latest_price_of_None: "(latest_price_of db sid = None) = (filter_by_seed_id db sid = [])"
proof -
  have "(order_by_recorded_at_desc xs = []) = (xs = [])" for xs
    using order_by_recorded_at_desc_length [of xs] by (metis length_0_conv)
  then show ?thesis by (simp add: latest_price_of_def first_row_None)
qed




lemma summarize_Inr:
  assumes "summarize s lp pp = Inr e"
  shows "summary_id e = Seed_id s \<and> currentPrice e = SeedPrice_price lp
    \<and> SeedPrice_volume lp = Some (volume e)
    \<and> previousPrice e = (case pp of Some p \<Rightarrow> SeedPrice_price p | None \<Rightarrow> SeedPrice_price lp)
    \<and> change e = py_round (currentPrice e - previousPrice e) 2
    \<and> changePercent e =
        (if 0 < previousPrice e then py_round (change e / previousPrice e * 100) 1 else 0)"
  using assms by (auto simp: summarize_def Let_def split: option.splits)

lemma summarize_total:
  "SeedPrice_volume lp \<noteq> None \<Longrightarrow> \<exists>e. summarize s lp pp = Inr e"
  by (auto simp: summarize_def Let_def split: option.splits)

lemma market_summary_loop_Inr:
  assumes "market_summary_loop db ss tv mc acc = Inr (tv', mc', acc')"
  shows "tv' = tv + sum_list (map (\<lambda>s. case latest_price_of db (Seed_id s) of
                None \<Rightarrow> 0
              | Some lp \<Rightarrow> (case SeedPrice_volume lp of None \<Rightarrow> 0 | Some v \<Rightarrow> v)) ss)
    \<and> mc' = mc + sum_list (map (\<lambda>s. case latest_price_of db (Seed_id s) of
                None \<Rightarrow> 0 | Some lp \<Rightarrow> SeedPrice_price lp * 1000) ss)
    \<and> (\<exists>new. acc' = acc @ new
          \<and> map summary_id new
              = map Seed_id (filter (\<lambda>s. latest_price_of db (Seed_id s) \<noteq> None) ss)
          \<and> (\<forall>e \<in> set new. \<exists>s \<in> set ss. \<exists>lp. latest_price_of db (Seed_id s) = Some lp
                \<and> summarize s lp (previous_price_of db (Seed_id s)) = Inr e))"
  using assms
proof (induction ss arbitrary: tv mc acc)
  case Nil
  then show ?case by simp
next
  case (Cons s ss)
  show ?case
  proof (cases "latest_price_of db (Seed_id s)")
    case None
    with Cons.prems have "market_summary_loop db ss tv mc acc = Inr (tv', mc', acc')"
      by simp
    from Cons.IH [OF this] None show ?thesis by auto
  next
    case (Some lp)
    show ?thesis
    proof (cases "summarize s lp (previous_price_of db (Seed_id s))")
      case (Inl err)
      with Some Cons.prems show ?thesis by simp
    next
      case (Inr e)
      note fields = summarize_Inr [OF Inr]
      from Some Inr Cons.prems
      have "market_summary_loop db ss (tv + volume e) (mc + currentPrice e * 1000) (acc @ [e])
          = Inr (tv', mc', acc')"
        by simp
      from Cons.IH [OF this] obtain new where
        tv: "tv' = tv + volume e + sum_list (map (\<lambda>s. case latest_price_of db (Seed_id s) of
                None \<Rightarrow> 0
              | Some lp \<Rightarrow> (case SeedPrice_volume lp of None \<Rightarrow> 0 | Some v \<Rightarrow> v)) ss)"
        and mc: "mc' = mc + currentPrice e * 1000 + sum_list (map (\<lambda>s. case latest_price_of db (Seed_id s) of
                None \<Rightarrow> 0 | Some lp \<Rightarrow> SeedPrice_price lp * 1000) ss)"
        and new: "acc' = (acc @ [e]) @ new"
          "map summary_id new
              = map Seed_id (filter (\<lambda>s. latest_price_of db (Seed_id s) \<noteq> None) ss)"
          "\<forall>e \<in> set new. \<exists>s \<in> set ss. \<exists>lp. latest_price_of db (Seed_id s) = Some lp
                \<and> summarize s lp (previous_price_of db (Seed_id s)) = Inr e"
        by auto
      have a: "acc' = acc @ (e # new)" using new(1) by simp
      have b: "map summary_id (e # new)
          = map Seed_id (filter (\<lambda>s. latest_price_of db (Seed_id s) \<noteq> None) (s # ss))"
        using new(2) Some fields by simp
      have c: "\<forall>x \<in> set (e # new). \<exists>s' \<in> set (s # ss). \<exists>lp. latest_price_of db (Seed_id s') = Some lp
                \<and> summarize s' lp (previous_price_of db (Seed_id s')) = Inr x"
        using new(3) Some Inr by auto
      from tv mc fields Some have d: "tv' = tv + sum_list (map (\<lambda>s. case latest_price_of db (Seed_id s) of
                None \<Rightarrow> 0
              | Some lp \<Rightarrow> (case SeedPrice_volume lp of None \<Rightarrow> 0 | Some v \<Rightarrow> v)) (s # ss))"
        and e: "mc' = mc + sum_list (map (\<lambda>s. case latest_price_of db (Seed_id s) of
                None \<Rightarrow> 0 | Some lp \<Rightarrow> SeedPrice_price lp * 1000) (s # ss))"
        by simp_all
      from a b c d e show ?thesis by blast
    qed
  qed
qed

lemma market_summary_loop_total:
  assumes "\<forall>s \<in> set ss. \<forall>lp. latest_price_of db (Seed_id s) = Some lp \<longrightarrow>
             SeedPrice_volume lp \<noteq> None"
  shows "\<exists>res. market_summary_loop db ss tv mc acc = Inr res"
  using assms
proof (induction ss arbitrary: tv mc acc)
  case Nil
  show ?case by simp
next
  case (Cons s ss)
  show ?case
  proof (cases "latest_price_of db (Seed_id s)")
    case None
    with Cons show ?thesis by simp
  next
    case (Some lp)
    with Cons.prems have "SeedPrice_volume lp \<noteq> None" by simp
    from summarize_total [OF this] obtain e where
      "summarize s lp (previous_price_of db (Seed_id s)) = Inr e" by blast
    with Some Cons show ?thesis by simp
  qed
qed

lemma get_market_summary_Inr:
  assumes "get_market_summary db = Inr r"
  shows "market_summary_loop db (seeds db) 0 0 []
      = Inr (totalVolume (marketStats r), marketCap (marketStats r), summary_seeds r)
    \<and> seedCount (marketStats r) = length (seeds db)"
  using assms by (auto simp: get_market_summary_def split: sum.splits prod.splits)

lemma sample_market_summary: "get_market_summary sample_db = Inr sample_summary"
  by (simp add: get_market_summary_def sample_defs sample_summary_def tomato_summary_def
        carrot_summary_def latest_price_of_def previous_price_of_def filter_by_seed_id_def
        order_by_recorded_at_desc_def first_row_def summarize_def Let_def py_round_def
        round_half_even_def floor_numeral_divide)



text \<open>
  C9. When the latest observations have a volume, \<open>get_market_summary\<close> returns a summary
  in which \<open>seedCount\<close> is the number of all seed rows, the entries are those of the seeds
  with at least one observation, in the order of the seeds, and \<open>totalVolume\<close> and
  \<open>marketCap\<close> are sums over the seeds to which a seed without observation contributes
  \<open>0\<close>. So with a seed that has no observation the list of entries is strictly shorter than
  \<open>seedCount\<close>.
\<close>

theorem market_summary_counts:
  assumes "\<forall>s \<in> set (seeds db). \<forall>lp. latest_price_of db (Seed_id s) = Some lp \<longrightarrow>
             SeedPrice_volume lp \<noteq> None"
  shows "\<exists>r. get_market_summary db = Inr r
      \<and> seedCount (marketStats r) = length (seeds db)
      \<and> map summary_id (summary_seeds r)
          = map Seed_id (filter (\<lambda>s. filter_by_seed_id db (Seed_id s) \<noteq> []) (seeds db))
      \<and> totalVolume (marketStats r)
          = sum_list (map (\<lambda>s. case latest_price_of db (Seed_id s) of
                None \<Rightarrow> 0
              | Some lp \<Rightarrow> (case SeedPrice_volume lp of None \<Rightarrow> 0 | Some v \<Rightarrow> v)) (seeds db))
      \<and> marketCap (marketStats r)
          = sum_list (map (\<lambda>s. case latest_price_of db (Seed_id s) of
                None \<Rightarrow> 0 | Some lp \<Rightarrow> SeedPrice_price lp * 1000) (seeds db))
      \<and> (\<forall>s. (latest_price_of db (Seed_id s) = None) = (filter_by_seed_id db (Seed_id s) = []))
      \<and> ((\<exists>s \<in> set (seeds db). filter_by_seed_id db (Seed_id s) = []) \<longrightarrow>
           length (summary_seeds r) < seedCount (marketStats r))"
proof -
  from market_summary_loop_total [OF assms, of 0 0 "[]"]
  obtain res where "market_summary_loop db (seeds db) 0 0 [] = Inr res" by blast
  then obtain r where r: "get_market_summary db = Inr r"
    by (cases res) (simp add: get_market_summary_def)
  note g = get_market_summary_Inr [OF r]
  from g have lp: "market_summary_loop db (seeds db) 0 0 []
      = Inr (totalVolume (marketStats r), marketCap (marketStats r), summary_seeds r)"
    by simp
  note inv = market_summary_loop_Inr [OF lp]
  have obs: "(\<lambda>s. latest_price_of db (Seed_id s) \<noteq> None)
      = (\<lambda>s. filter_by_seed_id db (Seed_id s) \<noteq> [])"
    by (simp add: latest_price_of_None)
  from inv have "map summary_id (summary_seeds r)
          = map Seed_id (filter (\<lambda>s. latest_price_of db (Seed_id s) \<noteq> None) (seeds db))"
    by auto
  then have ids: "map summary_id (summary_seeds r)
          = map Seed_id (filter (\<lambda>s. filter_by_seed_id db (Seed_id s) \<noteq> []) (seeds db))"
    by (simp only: obs)
  have less: "length (summary_seeds r) < seedCount (marketStats r)"
    if "\<exists>s \<in> set (seeds db). filter_by_seed_id db (Seed_id s) = []"
  proof -
    from that obtain s where "s \<in> set (seeds db)"
      and "\<not> filter_by_seed_id db (Seed_id s) \<noteq> []" by auto
    then have "length (filter (\<lambda>s. filter_by_seed_id db (Seed_id s) \<noteq> []) (seeds db))
        < length (seeds db)"
      by (rule length_filter_less)
    with arg_cong [OF ids, of length] g show ?thesis by simp
  qed
  from r g inv ids less latest_price_of_None [of db] show ?thesis
    by (intro exI [of _ r]) simp
qed

theorem market_summary_counts_witness:
  "filter_by_seed_id sample_db 2 = []
   \<and> get_market_summary sample_db = Inr sample_summary
   \<and> seedCount (marketStats sample_summary) = 3
   \<and> length (summary_seeds sample_summary) < seedCount (marketStats sample_summary)"
proof -
  have vols: "\<forall>s \<in> set (seeds sample_db). \<forall>lp. latest_price_of sample_db (Seed_id s) = Some lp \<longrightarrow>
             SeedPrice_volume lp \<noteq> None"
    by (auto simp: sample_defs latest_price_of_def filter_by_seed_id_def
          order_by_recorded_at_desc_def first_row_def)
  have none: "filter_by_seed_id sample_db 2 = []"
    by (simp add: filter_by_seed_id_def sample_defs)
  then have ex: "\<exists>s \<in> set (seeds sample_db). filter_by_seed_id sample_db (Seed_id s) = []"
    by (simp add: sample_db_def basil_def)
  from market_summary_counts [OF vols] ex sample_market_summary
  have "seedCount (marketStats sample_summary) = length (seeds sample_db)
      \<and> length (summary_seeds sample_summary) < seedCount (marketStats sample_summary)"
    by auto
  with none sample_market_summary show ?thesis by (simp add: sample_db_def)
qed

end
